theory Spec2Isabelle
  imports Complex_Main "HOL-Library.Char_ord" "HOL-Library.List_Lexorder"
    "HOL-Library.Product_Lexorder"
begin

section \<open>Python values used by app.py\<close>

text \<open>
  The exceptions that the modelled code paths of \<^verbatim>\<open>app.py\<close> can raise.
  \<open>APIError\<close> stands for any failure of a call to the spreadsheet service.
\<close>

datatype py_error = OverflowError | ZeroDivisionError | IndexError | KeyError | APIError

text \<open>
  A cell value is a Python \<^verbatim>\<open>str\<close> or a Python \<^verbatim>\<open>int\<close>: the only two
  kinds of value the program writes to the ledger. A \<^verbatim>\<open>str\<close> is a list of
  code points below 256.
\<close>

datatype cell = S string | I int

text \<open>
  A Python \<^verbatim>\<open>dict\<close> keeps its keys in insertion order: an association list
  with distinct keys. \<open>dict_set\<close> is \<^verbatim>\<open>d[k] = v\<close>: an existing key keeps its
  position, a new key goes to the end.
\<close>

fun dict_set :: "('k \<times> 'v) list \<Rightarrow> 'k \<Rightarrow> 'v \<Rightarrow> ('k \<times> 'v) list" where
  "dict_set [] k v = [(k, v)]"
| "dict_set ((k', v') # d) k v =
     (if k' = k then (k, v) # d else (k', v') # dict_set d k v)"

definition dict_keys :: "('k \<times> 'v) list \<Rightarrow> 'k list" where
  "dict_keys d = map fst d"

definition dict_values :: "('k \<times> 'v) list \<Rightarrow> 'v list" where
  "dict_values d = map snd d"

section \<open>The effective price\<close>

text \<open>
  Line 244 computes \<^verbatim>\<open>int(item["price"] * (1 - item["discount"] / 100))\<close> in
  Python's floats, which are IEEE 754 binary64 numbers with every operation rounded to
  the nearest representable value, ties to the even significand. A finite float is
  modelled as a pair \<open>(m, k)\<close> of integers that stands for \<open>m * 2 ^ k\<close>, and all the
  arithmetic below is integer arithmetic. \<open>None\<close> is an infinity.
\<close>

type_synonym double = "int \<times> int"

text \<open>\<^verbatim>\<open>int.bit_length()\<close> for a non-negative integer.\<close>

function bit_length :: "int \<Rightarrow> int" where
  "bit_length n = (if n \<le> 0 then 0 else 1 + bit_length (n div 2))"
  by pat_completeness auto
termination
  by (relation "measure nat") auto

declare bit_length.simps [simp del]

text \<open>\<open>shl a k\<close> is \<open>a * 2 ^ k\<close> for \<open>k \<ge> 0\<close> and \<open>a\<close> otherwise.\<close>

definition shl :: "int \<Rightarrow> int \<Rightarrow> int" where
  "shl a k = (if 0 \<le> k then a * 2 ^ nat k else a)"

text \<open>The floor of the binary logarithm of \<open>a / d\<close>, for positive \<open>a\<close> and \<open>d\<close>.\<close>

definition ilog2 :: "int \<Rightarrow> int \<Rightarrow> int" where
  "ilog2 a d =
     (let t = bit_length a - bit_length d
      in if shl d t \<le> shl a (- t) then t else t - 1)"

text \<open>The integer nearest to \<open>n / d\<close>, the even one of two nearest, for positive \<open>d\<close>.\<close>

definition rne_div :: "int \<Rightarrow> int \<Rightarrow> int" where
  "rne_div n d =
     (let q = n div d; r = n mod d
      in if 2 * r < d then q else if d < 2 * r then q + 1
         else if even q then q else q + 1)"

text \<open>
  The binary64 number nearest to the rational \<open>n / d\<close> (\<open>d\<close> positive): a significand
  of 53 bits, the exponent of the last bit at least \<open>-1074\<close> (the subnormal numbers),
  and an infinity from \<open>2 ^ 1024\<close> on.
\<close>

definition round_double :: "int \<Rightarrow> int \<Rightarrow> double option" where
  "round_double n d =
     (if n = 0 then Some (0, 0)
      else let a = \<bar>n\<bar>;
               k = max (ilog2 a d) (- 1022) - 52;
               m = rne_div (shl a (- k)) (shl d k)
           in if 0 \<le> k \<and> 2 ^ 1024 \<le> shl m k then None
              else Some (sgn n * m, k))"

text \<open>The value of a float as a fraction \<open>numer x / denom x\<close>.\<close>

definition numer :: "double \<Rightarrow> int" where
  "numer x = shl (fst x) (snd x)"

definition denom :: "double \<Rightarrow> int" where
  "denom x = shl 1 (- snd x)"

text \<open>
  \<^verbatim>\<open>a / b\<close> on two \<^verbatim>\<open>int\<close>s is the correctly rounded quotient, and raises
  \<^verbatim>\<open>OverflowError\<close> when that is too large for a float. \<^verbatim>\<open>int * float\<close> converts
  the \<^verbatim>\<open>int\<close> first, which raises \<^verbatim>\<open>OverflowError\<close> when it is too large.
  Float subtraction and multiplication overflow to an infinity, and
  \<^verbatim>\<open>int(x)\<close> truncates towards zero and raises \<^verbatim>\<open>OverflowError\<close> on an infinity.
\<close>

definition true_divide :: "int \<Rightarrow> int \<Rightarrow> py_error + double" where
  "true_divide a b =
     (if b = 0 then Inl ZeroDivisionError
      else case round_double (a * sgn b) \<bar>b\<bar> of
             None \<Rightarrow> Inl OverflowError
           | Some x \<Rightarrow> Inr x)"

definition int_to_float :: "int \<Rightarrow> py_error + double" where
  "int_to_float a =
     (case round_double a 1 of None \<Rightarrow> Inl OverflowError | Some x \<Rightarrow> Inr x)"

definition float_sub :: "double \<Rightarrow> double \<Rightarrow> double option" where
  "float_sub x y =
     round_double (numer x * denom y - numer y * denom x) (denom x * denom y)"

definition float_mul :: "double \<Rightarrow> double \<Rightarrow> double option" where
  "float_mul x y = round_double (numer x * numer y) (denom x * denom y)"

definition py_int :: "double option \<Rightarrow> py_error + int" where
  "py_int x =
     (case x of
        None \<Rightarrow> Inl OverflowError
      | Some y \<Rightarrow> Inr (sgn (numer y) * (\<bar>numer y\<bar> div denom y)))"

text \<open>Line 244, for \<open>p = item["price"]\<close> and \<open>d = item["discount"]\<close>.\<close>

definition final_price :: "int \<Rightarrow> int \<Rightarrow> py_error + int" where
  "final_price p d =
     (case true_divide d 100 of
        Inl e \<Rightarrow> Inl e
      | Inr r \<Rightarrow>
     (case float_sub (1, 0) r of
        None \<Rightarrow> Inl OverflowError
      | Some f \<Rightarrow>
     (case int_to_float p of
        Inl e \<Rightarrow> Inl e
      | Inr pf \<Rightarrow> py_int (float_mul pf f))))"

section \<open>Product catalog\<close>

record product =
  p_title :: string
  p_price :: int
  discount :: int
  image :: string

text \<open>The literal of lines 100 to 206.\<close>

definition catalog_literal :: "(string \<times> product) list" where
  "catalog_literal =
     [
      (''IMG_20250707_221915'',
       \<lparr>p_title = ''Elegant Thread Rakhi'', p_price = 120, discount = 40,
        image = ''https://res.cloudinary.com/dx35lfv49/image/upload/v1753726754/IMG_20250707_221915.jpg''\<rparr>),
      (''IMG_20250707_222238'',
       \<lparr>p_title = ''Traditional Beads Rakhi'', p_price = 120, discount = 40,
        image = ''https://res.cloudinary.com/dx35lfv49/image/upload/v1753726756/IMG_20250707_222238.jpg''\<rparr>),
      (''IMG_20250707_222103'',
       \<lparr>p_title = ''Simple Grace Rakhi'', p_price = 80, discount = 20,
        image = ''https://res.cloudinary.com/dx35lfv49/image/upload/v1753726757/IMG_20250707_222103.jpg''\<rparr>),
      (''IMG_20250707_222735'',
       \<lparr>p_title = ''Royal Red Rakhi'', p_price = 80, discount = 20,
        image = ''https://res.cloudinary.com/dx35lfv49/image/upload/v1753726761/IMG_20250707_222735.jpg''\<rparr>),
      (''IMG_20250707_222554'',
       \<lparr>p_title = ''Pearl Designer Rakhi'', p_price = 120, discount = 40,
        image = ''https://res.cloudinary.com/dx35lfv49/image/upload/v1753726762/IMG_20250707_222554.jpg''\<rparr>),
      (''IMG_20250729_114338_1'',
       \<lparr>p_title = ''Golden Stone Rakhi'', p_price = 150, discount = 45,
        image = ''https://res.cloudinary.com/dx35lfv49/image/upload/v1753777815/WhatsApp%20Image%202025-07-29%20at%2011.43.38_6a4f12e0.jpg''\<rparr>),
      (''IMG_20250729_114339_1'',
       \<lparr>p_title = ''Rustic Charm Rakhi'', p_price = 130, discount = 40,
        image = ''https://res.cloudinary.com/dx35lfv49/image/upload/v1753777816/WhatsApp%20Image%202025-07-29%20at%2011.43.39_2f92630f.jpg''\<rparr>),
      (''IMG_20250729_114339_2'',
       \<lparr>p_title = ''Twin Pearl Rakhi'', p_price = 110, discount = 30,
        image = ''https://res.cloudinary.com/dx35lfv49/image/upload/v1753777817/WhatsApp%20Image%202025-07-29%20at%2011.43.39_032298f3.jpg''\<rparr>),
      (''IMG_20250729_114338_2'',
       \<lparr>p_title = ''Red Feather Rakhi'', p_price = 140, discount = 40,
        image = ''https://res.cloudinary.com/dx35lfv49/image/upload/v1753777818/WhatsApp%20Image%202025-07-29%20at%2011.43.38_a3cbeee5.jpg''\<rparr>),
      (''IMG_20250729_114339_3'',
       \<lparr>p_title = ''Antique Emblem Rakhi'', p_price = 135, discount = 40,
        image = ''https://res.cloudinary.com/dx35lfv49/image/upload/v1753777819/WhatsApp%20Image%202025-07-29%20at%2011.43.39_a760ab12.jpg''\<rparr>),
      (''IMG_20250729_114340_1'',
       \<lparr>p_title = ''Threaded Diamond Rakhi'', p_price = 160, discount = 50,
        image = ''https://res.cloudinary.com/dx35lfv49/image/upload/v1753777820/WhatsApp%20Image%202025-07-29%20at%2011.43.40_5451bc86.jpg''\<rparr>),
      (''IMG_20250729_114340_2'',
       \<lparr>p_title = ''Zari Pearl Rakhi'', p_price = 115, discount = 30,
        image = ''https://res.cloudinary.com/dx35lfv49/image/upload/v1753777821/WhatsApp%20Image%202025-07-29%20at%2011.43.40_29d3c9dc.jpg''\<rparr>),
      (''IMG_20250729_114341_1'',
       \<lparr>p_title = ''Elegant Floral Rakhi'', p_price = 125, discount = 30,
        image = ''https://res.cloudinary.com/dx35lfv49/image/upload/v1753777822/WhatsApp%20Image%202025-07-29%20at%2011.43.41_c90ca9c0.jpg''\<rparr>),
      (''IMG_20250729_114340_3'',
       \<lparr>p_title = ''Red Gemstone Rakhi'', p_price = 145, discount = 40,
        image = ''https://res.cloudinary.com/dx35lfv49/image/upload/v1753777823/WhatsApp%20Image%202025-07-29%20at%2011.43.40_90609f14.jpg''\<rparr>),
      (''IMG_20250729_114341_2'',
       \<lparr>p_title = ''Classic Rudraksha Rakhi'', p_price = 95, discount = 20,
        image = ''https://res.cloudinary.com/dx35lfv49/image/upload/v1753777824/WhatsApp%20Image%202025-07-29%20at%2011.43.41_50feea60.jpg''\<rparr>),
      (''IMG_20250729_114342_1'',
       \<lparr>p_title = ''Minimal Designer Rakhi'', p_price = 105, discount = 25,
        image = ''https://res.cloudinary.com/dx35lfv49/image/upload/v1753777825/WhatsApp%20Image%202025-07-29%20at%2011.43.42_ab1eb195.jpg''\<rparr>),
      (''IMG_20250729_114342_2'',
       \<lparr>p_title = ''Silver Stone Rakhi'', p_price = 135, discount = 40,
        image = ''https://res.cloudinary.com/dx35lfv49/image/upload/v1753777826/WhatsApp%20Image%202025-07-29%20at%2011.43.42_ea071a48.jpg''\<rparr>)]"

text \<open>
  Line 207: \<^verbatim>\<open>sorted\<close> by descending discount. Both \<^verbatim>\<open>sorted\<close> and \<open>sort_key\<close>
  keep the order of items with equal keys.
\<close>

definition rakhi_catalog :: "(string \<times> product) list" where
  "rakhi_catalog = sort_key (\<lambda>(key, item). - discount item) catalog_literal"

section \<open>The cart\<close>

text \<open>
  \<^verbatim>\<open>st.session_state.cart\<close> maps a product key to
  \<^verbatim>\<open>{"title": ..., "price": ..., "quantity": ...}\<close>.
\<close>

record details =
  title :: string
  price :: int
  quantity :: int

type_synonym cart = "(string \<times> details) list"

text \<open>
  The body of the Add to Cart handler (lines 250 to 257). \<open>item_title\<close> is
  \<^verbatim>\<open>item["title"]\<close>, \<open>fprice\<close> the \<^verbatim>\<open>final_price\<close> computed on line 244 in the same
  run of the script, \<open>qty\<close> the value of the quantity widget.
\<close>

definition add_to_cart :: "cart \<Rightarrow> string \<Rightarrow> string \<Rightarrow> int \<Rightarrow> int \<Rightarrow> cart" where
  "add_to_cart c key item_title fprice qty =
     (case map_of c key of
        Some d \<Rightarrow> dict_set c key (d\<lparr>quantity := quantity d + qty\<rparr>)
      | None \<Rightarrow> dict_set c key \<lparr>title = item_title, price = fprice, quantity = qty\<rparr>)"

text \<open>The cart loop of lines 263 to 268: the grand total.\<close>

fun total_price :: "cart \<Rightarrow> int" where
  "total_price [] = 0"
| "total_price ((pid, d) # rest) = price d * quantity d + total_price rest"

section \<open>Strings\<close>

text \<open>
  \<^verbatim>\<open>str.strip()\<close> removes leading and trailing whitespace. Among the code
  points below 256, Python's whitespace is U+0009 to U+000D, U+001C to U+0020, U+0085
  and U+00A0.
\<close>

definition is_space :: "char \<Rightarrow> bool" where
  "is_space c = (of_char c \<in> {9, 10, 11, 12, 13, 28, 29, 30, 31, 32, 133, 160 :: nat})"

definition strip :: "string \<Rightarrow> string" where
  "strip s = rev (dropWhile is_space (rev (dropWhile is_space s)))"

text \<open>\<^verbatim>\<open>str(n)\<close> for an \<^verbatim>\<open>int\<close>: the decimal digits, with a minus sign when negative.\<close>

fun str_nat :: "nat \<Rightarrow> string" where
  "str_nat n = (if n < 10 then [''0123456789'' ! n]
                else str_nat (n div 10) @ [''0123456789'' ! (n mod 10)])"

declare str_nat.simps [simp del]

definition str_int :: "int \<Rightarrow> string" where
  "str_int n = (if n < 0 then CHR ''-'' # str_nat (nat (- n)) else str_nat (nat n))"

text \<open>\<^verbatim>\<open>str(v)\<close> for a cell value.\<close>

fun str :: "cell \<Rightarrow> string" where
  "str (S s) = s"
| "str (I n) = str_int n"

section \<open>The spreadsheet service\<close>

text \<open>
  The worksheet is reached through the \<^verbatim>\<open>gspread\<close> client, which is not part of
  the repository. It is modelled as the table it holds: \<open>sheet\<close> is \<open>None\<close> while the
  worksheet \<^verbatim>\<open>SHEET_NAME\<close> does not exist, and otherwise the list of its rows, oldest
  first, each row the list of the values written to it. Every call to the service can
  fail: \<open>faults\<close> tells, for the calls to come in order, whether each one raises
  (\<open>True\<close>); after the end of the list every call succeeds.
\<close>

record store =
  sheet :: "cell list list option"
  faults :: "bool list"

type_synonym 'a io = "(py_error + 'a) \<times> store"

definition request :: "store \<Rightarrow> unit io" where
  "request st =
     (case faults st of
        [] \<Rightarrow> (Inr (), st)
      | f # fs \<Rightarrow> (if f then Inl APIError else Inr (), st\<lparr>faults := fs\<rparr>))"

text \<open>\<^verbatim>\<open>_get_gspread_client\<close>: resolving the credentials and authorising.\<close>

definition get_gspread_client :: "store \<Rightarrow> unit io" where
  "get_gspread_client st = request st"

text \<open>
  \<^verbatim>\<open>_get_worksheet\<close>: \<^verbatim>\<open>open_by_key\<close>, then \<^verbatim>\<open>worksheet(sheet_name)\<close>; when that
  raises \<^verbatim>\<open>WorksheetNotFound\<close> the worksheet is created, empty.
\<close>

definition get_worksheet :: "store \<Rightarrow> unit io" where
  "get_worksheet st =
     (case request st of
        (Inl e, st1) \<Rightarrow> (Inl e, st1)
      | (Inr _, st1) \<Rightarrow>
     (case request st1 of
        (Inl e, st2) \<Rightarrow> (Inl e, st2)
      | (Inr _, st2) \<Rightarrow>
     (case sheet st2 of
        Some rows \<Rightarrow> (Inr (), st2)
      | None \<Rightarrow>
     (case request st2 of
        (Inl e, st3) \<Rightarrow> (Inl e, st3)
      | (Inr _, st3) \<Rightarrow> (Inr (), st3\<lparr>sheet := Some []\<rparr>)))))"

text \<open>
  \<^verbatim>\<open>sheet.get_all_values()\<close>: every row as text, the shorter rows filled with
  empty strings to the width of the longest; the empty list when the worksheet holds no
  row.
\<close>

definition fill_gaps :: "string list list \<Rightarrow> string list list" where
  "fill_gaps rows =
     (let w = foldr max (map length rows) 0
      in map (\<lambda>r. r @ replicate (w - length r) []) rows)"

definition get_all_values :: "store \<Rightarrow> string list list io" where
  "get_all_values st =
     (case request st of
        (Inl e, st1) \<Rightarrow> (Inl e, st1)
      | (Inr _, st1) \<Rightarrow>
     (case sheet st1 of
        None \<Rightarrow> (Inl APIError, st1)
      | Some rows \<Rightarrow> (Inr (fill_gaps (map (map str) rows)), st1)))"

text \<open>\<^verbatim>\<open>sheet.append_row(values)\<close>: one more row after the last one.\<close>

definition append_row :: "store \<Rightarrow> cell list \<Rightarrow> unit io" where
  "append_row st row =
     (case request st of
        (Inl e, st1) \<Rightarrow> (Inl e, st1)
      | (Inr _, st1) \<Rightarrow>
     (case sheet st1 of
        None \<Rightarrow> (Inl APIError, st1)
      | Some rows \<Rightarrow> (Inr (), st1\<lparr>sheet := Some (rows @ [row])\<rparr>)))"

section \<open>Google Sheets helpers\<close>

type_synonym order_row = "(string \<times> cell) list"

text \<open>The loop of lines 84 and 85.\<close>

fun append_rows :: "store \<Rightarrow> order_row list \<Rightarrow> unit io" where
  "append_rows st [] = (Inr (), st)"
| "append_rows st (row # rest) =
     (case append_row st (dict_values row) of
        (Inl e, st1) \<Rightarrow> (Inl e, st1)
      | (Inr _, st1) \<Rightarrow> append_rows st1 rest)"

text \<open>
  \<^verbatim>\<open>save_orders_to_sheet\<close> (lines 75 to 85). \<^verbatim>\<open>order_rows[0]\<close> raises
  \<^verbatim>\<open>IndexError\<close> on the empty list.
\<close>

definition add_header :: "store \<Rightarrow> order_row list \<Rightarrow> unit io" where
  "add_header st order_rows =
     (case order_rows of
        [] \<Rightarrow> (Inl IndexError, st)
      | row # _ \<Rightarrow> append_row st (map S (dict_keys row)))"

definition save_orders_to_sheet :: "store \<Rightarrow> order_row list \<Rightarrow> unit io" where
  "save_orders_to_sheet st order_rows =
     (case get_gspread_client st of
        (Inl e, st1) \<Rightarrow> (Inl e, st1)
      | (Inr _, st1) \<Rightarrow>
     (case get_worksheet st1 of
        (Inl e, st2) \<Rightarrow> (Inl e, st2)
      | (Inr _, st2) \<Rightarrow>
     (case get_all_values st2 of
        (Inl e, st3) \<Rightarrow> (Inl e, st3)
      | (Inr vals, st3) \<Rightarrow>
     (if vals = []
      then (case add_header st3 order_rows of
              (Inl e, st4) \<Rightarrow> (Inl e, st4)
            | (Inr _, st4) \<Rightarrow> append_rows st4 order_rows)
      else append_rows st3 order_rows))))"

section \<open>Checkout\<close>

text \<open>
  The session state, and what a run of the script takes from its environment:
  \<^verbatim>\<open>str(uuid.uuid4())\<close> and \<^verbatim>\<open>datetime.now().strftime("%Y-%m-%d %H:%M:%S")\<close>.
\<close>

record session =
  user_phone :: string
  cart :: cart

record env =
  uuid4 :: string
  now :: string

text \<open>One row of \<^verbatim>\<open>orders\<close> (lines 287 to 299), and the loop that builds the list.\<close>

definition order_row ::
  "string \<Rightarrow> string \<Rightarrow> string \<Rightarrow> string \<Rightarrow> string \<Rightarrow> string \<Rightarrow> string \<Rightarrow> details \<Rightarrow> order_row"
where
  "order_row order_id timestamp phone_number name address pincode reference_by d =
     [(''Order ID'', S order_id),
      (''Product'', S (title d)),
      (''Quantity'', I (quantity d)),
      (''Unit Price'', I (price d)),
      (''Subtotal'', I (price d * quantity d)),
      (''Name'', S name),
      (''Phone'', S phone_number),
      (''Address'', S address),
      (''Pincode'', S pincode),
      (''Reference By'', S reference_by),
      (''Timestamp'', S timestamp)]"

definition orders ::
  "env \<Rightarrow> session \<Rightarrow> string \<Rightarrow> string \<Rightarrow> string \<Rightarrow> string \<Rightarrow> order_row list"
where
  "orders ev s name address pincode reference_by =
     map (\<lambda>(pid, d). order_row (take 8 (uuid4 ev)) (now ev) (strip (user_phone s))
            name address pincode reference_by d) (cart s)"

text \<open>
  What a run of the Shop tab ends with: the note that the cart is empty (line 315),
  the cart and its grand total with the checkout form not submitted, the error message
  of line 280, or the success message of line 311 (with the order id and the grand
  total of the WhatsApp text). An exception that leaves the script is the \<open>Inl\<close>
  result.
\<close>

datatype outcome = CartEmpty | CartShown int | Rejected | Placed string int

text \<open>The handler of lines 278 to 313.\<close>

definition place_order ::
  "env \<Rightarrow> session \<Rightarrow> store \<Rightarrow> string \<Rightarrow> string \<Rightarrow> string \<Rightarrow> string
     \<Rightarrow> (py_error + outcome) \<times> session \<times> store"
where
  "place_order ev s st name address pincode reference_by =
     (if name = [] \<or> address = [] \<or> pincode = []
      then (Inr Rejected, s, st)
      else (case save_orders_to_sheet st (orders ev s name address pincode reference_by) of
              (Inl e, st1) \<Rightarrow> (Inl e, s, st1)
            | (Inr _, st1) \<Rightarrow>
                (Inr (Placed (take 8 (uuid4 ev)) (total_price (cart s))), s\<lparr>cart := []\<rparr>, st1)))"

section \<open>The Shop tab\<close>

text \<open>
  A run of the script is started by at most one widget: an Add to Cart button, with
  the value of its quantity input, or the Place Order button of the checkout form, with
  the four fields of the form.
\<close>

datatype event = NoEvent | AddToCart string int | PlaceOrder string string string string

text \<open>
  The loop of lines 242 to 258 over the catalog. The price of every product is
  computed before its button is looked at; an exception leaves the cart as the
  iterations before it made it.
\<close>

fun shop_loop :: "(string \<times> product) list \<Rightarrow> event \<Rightarrow> cart \<Rightarrow> (py_error + unit) \<times> cart" where
  "shop_loop [] e c = (Inr (), c)"
| "shop_loop ((key, item) # rest) e c =
     (case final_price (p_price item) (discount item) of
        Inl err \<Rightarrow> (Inl err, c)
      | Inr fprice \<Rightarrow>
          shop_loop rest e
            (case e of
               AddToCart k qty \<Rightarrow>
                 if k = key then add_to_cart c key (p_title item) fprice qty else c
             | _ \<Rightarrow> c))"

text \<open>
  Lines 238 to 315. The checkout form exists, and Place Order can be handled, only
  inside \<^verbatim>\<open>if st.session_state.cart:\<close>.
\<close>

definition shop_tab ::
  "env \<Rightarrow> event \<Rightarrow> session \<Rightarrow> store \<Rightarrow> (py_error + outcome) \<times> session \<times> store"
where
  "shop_tab ev e s st =
     (case shop_loop rakhi_catalog e (cart s) of
        (Inl err, c) \<Rightarrow> (Inl err, s\<lparr>cart := c\<rparr>, st)
      | (Inr _, c) \<Rightarrow>
          if c \<noteq> []
          then (case e of
                  PlaceOrder name address pincode reference_by \<Rightarrow>
                    place_order ev (s\<lparr>cart := c\<rparr>) st name address pincode reference_by
                | _ \<Rightarrow> (Inr (CartShown (total_price c)), s\<lparr>cart := c\<rparr>, st))
          else (Inr CartEmpty, s\<lparr>cart := c\<rparr>, st))"

text \<open>
  The login form (lines 215 to 226): a non-empty input is stored, stripped, as the
  phone number of the session.
\<close>

definition login :: "string \<Rightarrow> session option" where
  "login phone = (if phone \<noteq> [] then Some \<lparr>user_phone = strip phone, cart = []\<rparr> else None)"

section \<open>Reading the ledger\<close>

text \<open>
  \<^verbatim>\<open>int(value)\<close> on a \<^verbatim>\<open>str\<close>: surrounding whitespace is dropped, then an optional
  sign and at least one decimal digit must remain (leading zeros are allowed); anything
  else raises \<^verbatim>\<open>ValueError\<close>, here \<open>None\<close>. Underscores between digits never reach
  this function (see \<open>numericise\<close>).
\<close>

definition is_digit :: "char \<Rightarrow> bool" where
  "is_digit c = (c \<in> set ''0123456789'')"

definition digits_value :: "string \<Rightarrow> int" where
  "digits_value ds = foldl (\<lambda>a c. 10 * a + (int (of_char c) - 48)) 0 ds"

definition int_of_str :: "string \<Rightarrow> int option" where
  "int_of_str s =
     (case strip s of
        [] \<Rightarrow> None
      | c # r \<Rightarrow>
          if c = CHR ''+'' \<or> c = CHR ''-''
          then (if r \<noteq> [] \<and> list_all is_digit r
                then Some (if c = CHR ''-'' then - digits_value r else digits_value r)
                else None)
          else (if list_all is_digit (c # r) then Some (digits_value (c # r)) else None))"

text \<open>
  \<^verbatim>\<open>sheet.get_all_records()\<close> of the \<^verbatim>\<open>gspread\<close> client, with its default arguments:
  the values are read as text, the first row gives the keys, and every later row becomes
  a \<^verbatim>\<open>dict\<close> from the keys to its values, each value passed through
  \<^verbatim>\<open>numericise\<close>. That function leaves text with an underscore alone and turns text
  that \<^verbatim>\<open>int()\<close> accepts into that \<^verbatim>\<open>int\<close>; this is why line 94 has to turn the
  Phone column back into strings. It then tries \<^verbatim>\<open>float()\<close>; floats are not among
  the cell values of this model, and text that only \<^verbatim>\<open>float()\<close> accepts is left as
  text here.
\<close>

definition numericise :: "string \<Rightarrow> cell" where
  "numericise v =
     (if CHR ''_'' \<in> set v then S v
      else case int_of_str v of Some n \<Rightarrow> I n | None \<Rightarrow> S v)"

type_synonym record_row = "(string \<times> cell) list"

definition dict_of :: "('k \<times> 'v) list \<Rightarrow> ('k \<times> 'v) list" where
  "dict_of kvs = foldl (\<lambda>d (k, v). dict_set d k v) [] kvs"

definition records :: "string list list \<Rightarrow> record_row list" where
  "records vals =
     (case vals of
        [] \<Rightarrow> []
      | hdr # rows \<Rightarrow> map (\<lambda>row. dict_of (zip hdr (map numericise row))) rows)"

definition get_all_records :: "store \<Rightarrow> record_row list io" where
  "get_all_records st =
     (case get_all_values st of
        (Inl e, st1) \<Rightarrow> (Inl e, st1)
      | (Inr vals, st1) \<Rightarrow> (Inr (records vals), st1))"

text \<open>
  A \<^verbatim>\<open>pandas.DataFrame\<close>: the column names, and the rows in order, each with its
  index label (the position of the row in the data the frame was built from; selecting
  rows keeps the labels).
\<close>

record dataframe =
  columns :: "string list"
  rows :: "(nat \<times> record_row) list"

text \<open>
  Lines 91 to 95 of \<^verbatim>\<open>get_user_orders\<close>, on the records read. The frame built from
  the records has the keys of the records as columns (the records of one worksheet all
  have the same keys). \<^verbatim>\<open>df["Phone"]\<close> raises \<^verbatim>\<open>KeyError\<close> when there is no such
  column. Line 94 replaces every Phone by its string form, stripped; line 95 keeps the
  rows whose Phone is then equal to \<^verbatim>\<open>str(phone_number).strip()\<close>.
\<close>

definition normalise_phone :: "record_row \<Rightarrow> record_row" where
  "normalise_phone r =
     (case map_of r ''Phone'' of
        Some v \<Rightarrow> dict_set r ''Phone'' (S (strip (str v)))
      | None \<Rightarrow> r)"

definition select_orders :: "record_row list \<Rightarrow> cell \<Rightarrow> py_error + dataframe" where
  "select_orders data phone_number =
     (case data of
        [] \<Rightarrow>
          Inr \<lparr>columns = [''Order ID'', ''Product'', ''Quantity'', ''Unit Price'', ''Subtotal'',
                           ''Name'', ''Phone'', ''Address'', ''Pincode'', ''Reference By'',
                           ''Timestamp''],
               rows = []\<rparr>
      | r0 # _ \<Rightarrow>
          if ''Phone'' \<notin> set (dict_keys r0) then Inl KeyError
          else Inr \<lparr>columns = dict_keys r0,
                    rows = filter (\<lambda>(i, r). map_of r ''Phone'' = Some (S (strip (str phone_number))))
                             (map (\<lambda>(i, r). (i, normalise_phone r)) (enumerate 0 data))\<rparr>)"

text \<open>\<^verbatim>\<open>get_user_orders\<close> (lines 87 to 95).\<close>

definition get_user_orders :: "store \<Rightarrow> cell \<Rightarrow> dataframe io" where
  "get_user_orders st phone_number =
     (case get_gspread_client st of
        (Inl e, st1) \<Rightarrow> (Inl e, st1)
      | (Inr _, st1) \<Rightarrow>
     (case get_worksheet st1 of
        (Inl e, st2) \<Rightarrow> (Inl e, st2)
      | (Inr _, st2) \<Rightarrow>
     (case get_all_records st2 of
        (Inl e, st3) \<Rightarrow> (Inl e, st3)
      | (Inr data, st3) \<Rightarrow> (select_orders data phone_number, st3))))"

section \<open>The My Orders tab\<close>

text \<open>
  \<^verbatim>\<open>df.groupby("Order ID")\<close> with the default \<^verbatim>\<open>sort=True\<close>: iterating over it gives
  one group for each distinct value of the column, in ascending order of that value,
  each group holding its rows in the order of the frame. In a column that mixes the two,
  \<^verbatim>\<open>pandas\<close> puts the integers before the strings; integers are ordered by value and
  strings by code points.
\<close>

fun cell_key :: "cell \<Rightarrow> nat \<times> int \<times> string" where
  "cell_key (I n) = (0, n, [])"
| "cell_key (S s) = (1, 0, s)"

definition groupby :: "string \<Rightarrow> dataframe \<Rightarrow> py_error + (cell \<times> (nat \<times> record_row) list) list" where
  "groupby col df =
     (if col \<notin> set (columns df) then Inl KeyError
      else Inr (map (\<lambda>k. (k, filter (\<lambda>(i, r). map_of r col = Some k) (rows df)))
                  (sort_key cell_key
                     (remdups (List.map_filter (\<lambda>(i, r). map_of r col) (rows df))))))"

text \<open>
  What lines 328 to 334 show for one group: the order id, the name, pincode and address
  of the first row of the group, its Reference By when that is not blank, and the five
  columns Product, Quantity, Unit Price, Subtotal, Timestamp of every row.
\<close>

record group_view =
  view_oid :: cell
  view_name :: cell
  view_pincode :: cell
  view_address :: cell
  view_reference :: "cell option"
  view_table :: "(nat \<times> cell list) list"

definition getitem :: "record_row \<Rightarrow> string \<Rightarrow> py_error + cell" where
  "getitem r k = (case map_of r k of None \<Rightarrow> Inl KeyError | Some v \<Rightarrow> Inr v)"

definition bind_error :: "py_error + 'a \<Rightarrow> ('a \<Rightarrow> py_error + 'b) \<Rightarrow> py_error + 'b" where
  "bind_error x f = (case x of Inl e \<Rightarrow> Inl e | Inr v \<Rightarrow> f v)"

fun getitems :: "record_row \<Rightarrow> string list \<Rightarrow> py_error + cell list" where
  "getitems r [] = Inr []"
| "getitems r (k # ks) =
     bind_error (getitem r k) (\<lambda>v. bind_error (getitems r ks) (\<lambda>vs. Inr (v # vs)))"

fun table_of :: "(nat \<times> record_row) list \<Rightarrow> py_error + (nat \<times> cell list) list" where
  "table_of [] = Inr []"
| "table_of ((i, r) # g) =
     bind_error (getitems r [''Product'', ''Quantity'', ''Unit Price'', ''Subtotal'', ''Timestamp''])
       (\<lambda>vs. bind_error (table_of g) (\<lambda>t. Inr ((i, vs) # t)))"

definition show_group :: "cell \<times> (nat \<times> record_row) list \<Rightarrow> py_error + group_view" where
  "show_group g =
     (case snd g of
        [] \<Rightarrow> Inl IndexError
      | (i, r0) # _ \<Rightarrow>
          bind_error (getitem r0 ''Name'') (\<lambda>name.
          bind_error (getitem r0 ''Pincode'') (\<lambda>pincode.
          bind_error (getitem r0 ''Address'') (\<lambda>address.
          bind_error (table_of (snd g)) (\<lambda>t.
            Inr \<lparr>view_oid = fst g, view_name = name, view_pincode = pincode,
                 view_address = address,
                 view_reference =
                   (case map_of r0 ''Reference By'' of
                      None \<Rightarrow> None
                    | Some v \<Rightarrow> if strip (str v) \<noteq> [] then Some v else None),
                 view_table = t\<rparr>)))))"

fun show_groups :: "(cell \<times> (nat \<times> record_row) list) list \<Rightarrow> py_error + group_view list" where
  "show_groups [] = Inr []"
| "show_groups (g # gs) =
     bind_error (show_group g) (\<lambda>v. bind_error (show_groups gs) (\<lambda>vs. Inr (v # vs)))"

text \<open>
  Lines 317 to 334. The page is the note that there are no orders, or the number of
  distinct order ids, the number of rows, and the groups in the order of the loop.
\<close>

datatype orders_page = NoOrders | OrdersShown nat nat "group_view list"

definition my_orders_tab :: "session \<Rightarrow> store \<Rightarrow> orders_page io" where
  "my_orders_tab s st =
     (case get_user_orders st (S (strip (user_phone s))) of
        (Inl e, st1) \<Rightarrow> (Inl e, st1)
      | (Inr df, st1) \<Rightarrow>
          if rows df = [] then (Inr NoOrders, st1)
          else (bind_error (getitem (snd (hd (rows df))) ''Order ID'') (\<lambda>_.
                bind_error (groupby ''Order ID'' df) (\<lambda>gs.
                bind_error (show_groups gs) (\<lambda>vs.
                  Inr (OrdersShown (length gs) (length (rows df)) vs)))), st1))"

section \<open>Facts about the spreadsheet service\<close>

lemma request_sheet: "request st = (r, st1) \<Longrightarrow> sheet st1 = sheet st"
  by (auto simp: request_def split: list.splits if_splits)

lemma request_error: "request st = (Inl e, st1) \<Longrightarrow> e = APIError"
  by (auto simp: request_def split: list.splits if_splits)

lemma request_no_faults: "faults st = [] \<Longrightarrow> request st = (Inr (), st)"
  by (simp add: request_def)

lemma get_worksheet_sheet:
  "get_worksheet st = (Inr u, st1) \<Longrightarrow>
     sheet st1 = Some (case sheet st of None \<Rightarrow> [] | Some tbl \<Rightarrow> tbl)"
  by (auto simp: get_worksheet_def split: prod.splits sum.splits option.splits
      dest!: request_sheet)

lemma get_worksheet_error: "get_worksheet st = (Inl e, st1) \<Longrightarrow> e = APIError"
  by (auto simp: get_worksheet_def split: prod.splits sum.splits option.splits
      dest!: request_error)

lemma get_worksheet_no_faults:
  "faults st = [] \<Longrightarrow>
     get_worksheet st = (Inr (), st\<lparr>sheet := Some (case sheet st of None \<Rightarrow> [] | Some tbl \<Rightarrow> tbl)\<rparr>)"
  by (cases "sheet st") (simp_all add: get_worksheet_def request_no_faults)

lemma fill_gaps_Nil: "fill_gaps tbl = [] \<longleftrightarrow> tbl = []"
  by (simp add: fill_gaps_def Let_def)

lemma get_all_values_sheet:
  "get_all_values st = (Inr vals, st1) \<Longrightarrow>
     sheet st1 = sheet st \<and> (\<exists>tbl. sheet st = Some tbl \<and> (vals = [] \<longleftrightarrow> tbl = []))"
  by (auto simp: get_all_values_def fill_gaps_Nil split: prod.splits sum.splits option.splits
      dest!: request_sheet)

lemma get_all_values_error: "get_all_values st = (Inl e, st1) \<Longrightarrow> e = APIError"
  by (auto simp: get_all_values_def split: prod.splits sum.splits option.splits
      dest!: request_error)

lemma append_row_sheet:
  "append_row st row = (Inr u, st1) \<Longrightarrow> sheet st = Some cur \<Longrightarrow> sheet st1 = Some (cur @ [row])"
  by (auto simp: append_row_def split: prod.splits sum.splits option.splits
      dest!: request_sheet)

lemma append_row_error: "append_row st row = (Inl e, st1) \<Longrightarrow> e = APIError"
  by (auto simp: append_row_def split: prod.splits sum.splits option.splits
      dest!: request_error)

lemma append_row_no_faults:
  "faults st = [] \<Longrightarrow> sheet st = Some cur \<Longrightarrow>
     append_row st row = (Inr (), st\<lparr>sheet := Some (cur @ [row])\<rparr>)"
  by (simp add: append_row_def request_no_faults)

lemma append_rows_sheet:
  "append_rows st tbl = (Inr u, st1) \<Longrightarrow> sheet st = Some cur \<Longrightarrow>
     sheet st1 = Some (cur @ map dict_values tbl)"
proof (induction tbl arbitrary: st cur)
  case Nil
  then show ?case by simp
next
  case (Cons row tbl)
  from Cons.prems(1) obtain st2 where a: "append_row st (dict_values row) = (Inr (), st2)"
    and r: "append_rows st2 tbl = (Inr u, st1)"
    by (auto split: prod.splits sum.splits)
  from append_row_sheet [OF a Cons.prems(2)] have "sheet st2 = Some (cur @ [dict_values row])" .
  from Cons.IH [OF r this] show ?case by simp
qed

lemma append_rows_error: "append_rows st tbl = (Inl e, st1) \<Longrightarrow> e = APIError"
  by (induction tbl arbitrary: st) (auto split: prod.splits sum.splits dest: append_row_error)

lemma append_rows_no_faults:
  "faults st = [] \<Longrightarrow> sheet st = Some cur \<Longrightarrow>
     append_rows st tbl = (Inr (), st\<lparr>sheet := Some (cur @ map dict_values tbl)\<rparr>)"
proof (induction tbl arbitrary: st cur)
  case Nil
  then show ?case by simp
next
  case (Cons row tbl)
  then show ?case by (simp add: append_row_no_faults)
qed

lemma save_orders_sheet:
  assumes "save_orders_to_sheet st order_rows = (Inr u, st1)"
  shows "sheet st1 =
    Some (let cur = (case sheet st of None \<Rightarrow> [] | Some tbl \<Rightarrow> tbl)
          in cur @ (if cur = [] then (case order_rows of [] \<Rightarrow> [] | row # _ \<Rightarrow> [map S (dict_keys row)]) else [])
               @ map dict_values order_rows)"
proof -
  from assms obtain c1 where c1: "get_gspread_client st = (Inr (), c1)"
    by (auto simp: save_orders_to_sheet_def split: prod.splits sum.splits)
  from assms c1 obtain c2 where c2: "get_worksheet c1 = (Inr (), c2)"
    by (auto simp: save_orders_to_sheet_def split: prod.splits sum.splits)
  from assms c1 c2 obtain vals c3 where c3: "get_all_values c2 = (Inr vals, c3)"
    by (auto simp: save_orders_to_sheet_def split: prod.splits sum.splits)
  let ?cur = "case sheet st of None \<Rightarrow> [] | Some tbl \<Rightarrow> tbl"
  have s1: "sheet c1 = sheet st"
    using c1 by (simp add: get_gspread_client_def request_sheet)
  have s2: "sheet c2 = Some ?cur"
    using get_worksheet_sheet [OF c2] s1 by simp
  have s3: "sheet c3 = Some ?cur" and v: "vals = [] \<longleftrightarrow> ?cur = []"
    using get_all_values_sheet [OF c3] s2 by auto
  show ?thesis
  proof (cases "vals = []")
    case True
    with assms c1 c2 c3 obtain c4 where h: "add_header c3 order_rows = (Inr (), c4)"
      and r: "append_rows c4 order_rows = (Inr u, st1)"
      by (auto simp: save_orders_to_sheet_def split: prod.splits sum.splits)
    from h obtain row rest where o: "order_rows = row # rest"
      and a: "append_row c3 (map S (dict_keys row)) = (Inr (), c4)"
      by (auto simp: add_header_def split: list.splits)
    from append_row_sheet [OF a s3] have "sheet c4 = Some (?cur @ [map S (dict_keys row)])" .
    from append_rows_sheet [OF r this] show ?thesis
      using True v o by (simp add: Let_def)
  next
    case False
    with assms c1 c2 c3 have r: "append_rows c3 order_rows = (Inr u, st1)"
      by (auto simp: save_orders_to_sheet_def split: prod.splits sum.splits)
    from append_rows_sheet [OF r s3] show ?thesis
      using False v by (simp add: Let_def)
  qed
qed

lemma save_orders_no_faults:
  assumes "faults st = []" and "order_rows = row # rest"
  shows "save_orders_to_sheet st order_rows =
    (Inr (), st\<lparr>sheet :=
       Some (let cur = (case sheet st of None \<Rightarrow> [] | Some tbl \<Rightarrow> tbl)
             in cur @ (if cur = [] then [map S (dict_keys row)] else [])
                  @ map dict_values order_rows)\<rparr>)"
  using assms
  by (cases "sheet st")
     (simp_all add: save_orders_to_sheet_def get_gspread_client_def request_no_faults
       get_worksheet_no_faults get_all_values_def fill_gaps_Nil add_header_def
       append_row_no_faults append_rows_no_faults Let_def)

lemma save_orders_error:
  assumes "save_orders_to_sheet st order_rows = (Inl e, st1)" and "order_rows \<noteq> []"
  shows "e = APIError"
  using assms
  by (auto simp: save_orders_to_sheet_def get_gspread_client_def add_header_def
      split: prod.splits sum.splits if_splits list.splits
      dest: request_error get_worksheet_error get_all_values_error append_row_error
        append_rows_error)

lemma save_orders_empty:
  assumes "faults st = []" and "sheet st = None \<or> sheet st = Some []"
  shows "save_orders_to_sheet st [] = (Inl IndexError, st\<lparr>sheet := Some []\<rparr>)"
  using assms
  by (auto simp: save_orders_to_sheet_def get_gspread_client_def request_no_faults
       get_worksheet_no_faults get_all_values_def fill_gaps_Nil add_header_def)

section \<open>Facts about the checkout\<close>

lemma dict_keys_order_row:
  "dict_keys (order_row oid ts ph name address pincode reference_by d) =
     [''Order ID'', ''Product'', ''Quantity'', ''Unit Price'', ''Subtotal'', ''Name'', ''Phone'',
      ''Address'', ''Pincode'', ''Reference By'', ''Timestamp'']"
  by (simp add: dict_keys_def order_row_def)

lemma orders_Cons:
  "cart s = (pid, d) # c \<Longrightarrow>
     orders ev s name address pincode reference_by =
       order_row (take 8 (uuid4 ev)) (now ev) (strip (user_phone s)) name address pincode
         reference_by d
       # map (\<lambda>(pid, d). order_row (take 8 (uuid4 ev)) (now ev) (strip (user_phone s))
               name address pincode reference_by d) c"
  by (simp add: orders_def)

lemma orders_Nil: "orders ev s name address pincode reference_by = [] \<longleftrightarrow> cart s = []"
  by (simp add: orders_def)

lemma final_price_error: "final_price p d = Inl e \<Longrightarrow> e = OverflowError"
  by (auto simp: final_price_def true_divide_def int_to_float_def py_int_def
      split: sum.splits option.splits if_splits)

lemma shop_loop_error: "shop_loop cat e c = (Inl err, c') \<Longrightarrow> err = OverflowError"
  by (induction cat e c rule: shop_loop.induct)
     (auto split: sum.splits dest: final_price_error)

lemma shop_loop_no_add:
  "(\<forall>k q. e \<noteq> AddToCart k q) \<Longrightarrow> snd (shop_loop cat e c) = c"
  by (induction cat e c rule: shop_loop.induct) (auto split: sum.splits event.splits)

section \<open>Properties of the ledger writes\<close>

text \<open>
  C9. For the rows of a checkout (the cart is not empty), \<^verbatim>\<open>save_orders_to_sheet\<close>
  succeeds when no call to the service fails, and whenever it succeeds the worksheet
  holds afterwards what it held before, then the header row exactly when it held no row
  at all (the worksheet was missing or empty), with the eleven column names
  Order ID, Product, Quantity, Unit Price, Subtotal, Name, Phone, Address, Pincode,
  Reference By, Timestamp in this order, then one row for each order line in the order
  of the input. No header is added to a worksheet that holds any row.
\<close>

theorem save_orders_header_once:
  assumes "cart s \<noteq> []"
  shows "(faults st = [] \<longrightarrow>
            fst (save_orders_to_sheet st (orders ev s name address pincode reference_by)) = Inr ())
    \<and> (save_orders_to_sheet st (orders ev s name address pincode reference_by) = (Inr (), st1) \<longrightarrow>
         sheet st1 =
           Some ((case sheet st of None \<Rightarrow> [] | Some tbl \<Rightarrow> tbl)
                 @ (if sheet st = None \<or> sheet st = Some []
                    then [map S [''Order ID'', ''Product'', ''Quantity'', ''Unit Price'',
                                 ''Subtotal'', ''Name'', ''Phone'', ''Address'', ''Pincode'',
                                 ''Reference By'', ''Timestamp'']]
                    else [])
                 @ map dict_values (orders ev s name address pincode reference_by)))"
proof -
  from assms obtain pid d c where c: "cart s = (pid, d) # c"
    by (cases "cart s") auto
  let ?rows = "orders ev s name address pincode reference_by"
  from orders_Cons [OF c] obtain rest where
    o: "?rows = order_row (take 8 (uuid4 ev)) (now ev) (strip (user_phone s)) name address
                  pincode reference_by d # rest"
    by blast
  have "faults st = [] \<Longrightarrow> fst (save_orders_to_sheet st ?rows) = Inr ()"
    by (simp add: save_orders_no_faults [OF _ o])
  moreover have "sheet st1 =
      Some ((case sheet st of None \<Rightarrow> [] | Some tbl \<Rightarrow> tbl)
            @ (if sheet st = None \<or> sheet st = Some []
               then [map S [''Order ID'', ''Product'', ''Quantity'', ''Unit Price'',
                            ''Subtotal'', ''Name'', ''Phone'', ''Address'', ''Pincode'',
                            ''Reference By'', ''Timestamp'']]
               else [])
            @ map dict_values ?rows)"
    if "save_orders_to_sheet st ?rows = (Inr (), st1)"
    using save_orders_sheet [OF that] o
    by (cases "sheet st") (simp_all add: Let_def dict_keys_order_row)
  ultimately show ?thesis by blast
qed

theorem save_orders_header_once_witness:
  "sheet (snd (save_orders_to_sheet \<lparr>sheet = None, faults = []\<rparr>
      (orders \<lparr>uuid4 = ''1b9d6bcd-bbfd-4b2d-9b5d-ab8dfbbd4bed'', now = ''2025-08-01 10:00:00''\<rparr>
         \<lparr>user_phone = ''9876543210'',
          cart = [(''IMG_20250707_221915'',
                   \<lparr>title = ''Elegant Thread Rakhi'', price = 72, quantity = 2\<rparr>)]\<rparr>
         ''Asha'' ''12 MG Road'' ''560001'' ''''))) =
   Some [[S ''Order ID'', S ''Product'', S ''Quantity'', S ''Unit Price'', S ''Subtotal'',
          S ''Name'', S ''Phone'', S ''Address'', S ''Pincode'', S ''Reference By'',
          S ''Timestamp''],
         [S ''1b9d6bcd'', S ''Elegant Thread Rakhi'', I 2, I 72, I 144, S ''Asha'',
          S ''9876543210'', S ''12 MG Road'', S ''560001'', S '''', S ''2025-08-01 10:00:00'']]"
proof -
  let ?st = "\<lparr>sheet = None, faults = []\<rparr>"
  let ?ev = "\<lparr>uuid4 = ''1b9d6bcd-bbfd-4b2d-9b5d-ab8dfbbd4bed'', now = ''2025-08-01 10:00:00''\<rparr>"
  let ?s = "\<lparr>user_phone = ''9876543210'',
          cart = [(''IMG_20250707_221915'',
                   \<lparr>title = ''Elegant Thread Rakhi'', price = 72, quantity = 2\<rparr>)]\<rparr>"
  let ?rows = "orders ?ev ?s ''Asha'' ''12 MG Road'' ''560001'' ''''"
  have c: "cart ?s \<noteq> []" by simp
  note t = save_orders_header_once [OF c, of ?st ?ev "''Asha''" "''12 MG Road''" "''560001''" "''''"
      "snd (save_orders_to_sheet ?st ?rows)"]
  from t have "fst (save_orders_to_sheet ?st ?rows) = Inr ()" by simp
  then have "save_orders_to_sheet ?st ?rows = (Inr (), snd (save_orders_to_sheet ?st ?rows))"
    by (simp add: prod_eq_iff)
  with t have "sheet (snd (save_orders_to_sheet ?st ?rows)) =
      Some ([map S [''Order ID'', ''Product'', ''Quantity'', ''Unit Price'',
                            ''Subtotal'', ''Name'', ''Phone'', ''Address'', ''Pincode'',
                            ''Reference By'', ''Timestamp'']] @ map dict_values ?rows)"
    by simp
  then show ?thesis
    by (simp add: orders_def order_row_def dict_values_def strip_def is_space_def)
qed

lemma place_order_error:
  assumes "place_order ev s st name address pincode reference_by = (Inl e, s1, st1)"
    and "cart s \<noteq> []"
  shows "e = APIError"
proof -
  from assms(2) have "orders ev s name address pincode reference_by \<noteq> []"
    by (simp add: orders_Nil)
  with assms(1) show ?thesis
    by (auto simp: place_order_def split: if_splits prod.splits sum.splits
        dest: save_orders_error)
qed

lemma shop_tab_error:
  assumes "shop_tab ev e s st = (Inl err, s1, st1)"
  shows "err = OverflowError \<or> err = APIError"
proof (cases "shop_loop rakhi_catalog e (cart s)")
  case (Pair r c)
  show ?thesis
  proof (cases r)
    case (Inl x)
    with Pair assms show ?thesis
      by (auto simp: shop_tab_def dest: shop_loop_error)
  next
    case (Inr u)
    with Pair assms show ?thesis
      by (auto simp: shop_tab_def split: if_splits event.splits
          dest!: place_order_error)
  qed
qed

section \<open>Properties of the checkout\<close>

text \<open>
  C10. \<^verbatim>\<open>save_orders_to_sheet\<close> takes the header from \<^verbatim>\<open>order_rows[0]\<close>: on a
  worksheet without any row (and no failing call) the empty list of rows raises
  \<^verbatim>\<open>IndexError\<close>. A non-empty list never raises \<^verbatim>\<open>IndexError\<close>, whatever the
  worksheet holds and whichever calls fail, and no run of the Shop tab ends in
  \<^verbatim>\<open>IndexError\<close>, because Place Order is handled only while the cart is not empty.
\<close>

theorem save_orders_index_error:
  "(faults st = [] \<and> (sheet st = None \<or> sheet st = Some []) \<longrightarrow>
      fst (save_orders_to_sheet st []) = Inl IndexError)
   \<and> (order_rows \<noteq> [] \<longrightarrow> fst (save_orders_to_sheet st order_rows) \<noteq> Inl IndexError)
   \<and> fst (shop_tab ev e s st) \<noteq> Inl IndexError"
proof (intro conjI impI)
  assume "faults st = [] \<and> (sheet st = None \<or> sheet st = Some [])"
  then show "fst (save_orders_to_sheet st []) = Inl IndexError"
    by (simp add: save_orders_empty)
next
  assume "order_rows \<noteq> []"
  then show "fst (save_orders_to_sheet st order_rows) \<noteq> Inl IndexError"
    using save_orders_error [of st order_rows IndexError "snd (save_orders_to_sheet st order_rows)"]
    by (auto simp: prod_eq_iff)
next
  show "fst (shop_tab ev e s st) \<noteq> Inl IndexError"
    using shop_tab_error [of ev e s st IndexError "fst (snd (shop_tab ev e s st))"
        "snd (snd (shop_tab ev e s st))"]
    by (auto simp: prod_eq_iff)
qed

theorem save_orders_index_error_witness:
  "fst (save_orders_to_sheet \<lparr>sheet = Some [], faults = []\<rparr> []) = Inl IndexError
   \<and> fst (save_orders_to_sheet \<lparr>sheet = Some [], faults = []\<rparr>
            [[(''Order ID'', S ''1b9d6bcd'')]]) \<noteq> Inl IndexError"
  using save_orders_index_error [of "\<lparr>sheet = Some [], faults = []\<rparr>"
      "[[(''Order ID'', S ''1b9d6bcd'')]]" "\<lparr>uuid4 = [], now = []\<rparr>" NoEvent
      "\<lparr>user_phone = [], cart = []\<rparr>"]
  by simp

text \<open>
  C3, as the code has it. The checkout is rejected, with the session and the store
  (so the ledger and its row count) left as they were, if and only if the name, the
  address or the pincode is the empty string. A field of whitespace only is not
  empty and is accepted; \<open>reference_by\<close> plays no part.
\<close>

theorem place_order_rejected_iff:
  "(fst (place_order ev s st name address pincode reference_by) = Inr Rejected
      \<longleftrightarrow> name = [] \<or> address = [] \<or> pincode = [])
   \<and> (name = [] \<or> address = [] \<or> pincode = [] \<longrightarrow>
        place_order ev s st name address pincode reference_by = (Inr Rejected, s, st))"
  by (auto simp: place_order_def split: prod.splits sum.splits)

theorem place_order_rejected_iff_witness:
  "place_order \<lparr>uuid4 = ''1b9d6bcd-bbfd-4b2d-9b5d-ab8dfbbd4bed'', now = ''2025-08-01 10:00:00''\<rparr>
      \<lparr>user_phone = ''9876543210'',
       cart = [(''IMG_20250707_221915'',
                \<lparr>title = ''Elegant Thread Rakhi'', price = 72, quantity = 2\<rparr>)]\<rparr>
      \<lparr>sheet = Some [], faults = []\<rparr> ''Asha'' '''' ''560001'' ''''
   = (Inr Rejected,
      \<lparr>user_phone = ''9876543210'',
       cart = [(''IMG_20250707_221915'',
                \<lparr>title = ''Elegant Thread Rakhi'', price = 72, quantity = 2\<rparr>)]\<rparr>,
      \<lparr>sheet = Some [], faults = []\<rparr>)"
  using place_order_rejected_iff [of
      "\<lparr>uuid4 = ''1b9d6bcd-bbfd-4b2d-9b5d-ab8dfbbd4bed'', now = ''2025-08-01 10:00:00''\<rparr>"
      "\<lparr>user_phone = ''9876543210'',
       cart = [(''IMG_20250707_221915'',
                \<lparr>title = ''Elegant Thread Rakhi'', price = 72, quantity = 2\<rparr>)]\<rparr>"
      "\<lparr>sheet = Some [], faults = []\<rparr>" "''Asha''" "''''" "''560001''" "''''"]
  by simp

text \<open>
  C3 as stated fails: with the name a single space, the name is empty once
  whitespace is taken off, yet the checkout is not rejected and two rows (the header
  and the order line) are written to the empty ledger.
\<close>

theorem whitespace_name_accepted:
  "strip '' '' = [] \<and>
   fst (place_order
      \<lparr>uuid4 = ''1b9d6bcd-bbfd-4b2d-9b5d-ab8dfbbd4bed'', now = ''2025-08-01 10:00:00''\<rparr>
      \<lparr>user_phone = ''9876543210'',
       cart = [(''IMG_20250707_221915'',
                \<lparr>title = ''Elegant Thread Rakhi'', price = 72, quantity = 2\<rparr>)]\<rparr>
      \<lparr>sheet = Some [], faults = []\<rparr> '' '' ''12 MG Road'' ''560001'' '''')
     = Inr (Placed ''1b9d6bcd'' 144) \<and>
   map_option length (sheet (snd (snd (place_order
      \<lparr>uuid4 = ''1b9d6bcd-bbfd-4b2d-9b5d-ab8dfbbd4bed'', now = ''2025-08-01 10:00:00''\<rparr>
      \<lparr>user_phone = ''9876543210'',
       cart = [(''IMG_20250707_221915'',
                \<lparr>title = ''Elegant Thread Rakhi'', price = 72, quantity = 2\<rparr>)]\<rparr>
      \<lparr>sheet = Some [], faults = []\<rparr> '' '' ''12 MG Road'' ''560001'' '''')))) = Some 2"
  by (simp add: place_order_def orders_def save_orders_no_faults strip_def is_space_def)

text \<open>
  C1. A successful checkout of a cart with two distinct products writes exactly two
  order lines to the ledger, after the rows it held and the header when it held none.
  Both lines carry the one order id and the one timestamp of the checkout, the
  Subtotal of each is its Unit Price times its Quantity, and the two Subtotals add up
  to the grand total of the cart, which is the total of the success message.
\<close>

theorem checkout_two_products:
  assumes "cart s = [(k1, d1), (k2, d2)]" and "k1 \<noteq> k2"
    and "place_order ev s st name address pincode reference_by = (Inr (Placed oid tot), s1, st1)"
  shows "\<exists>r1 r2 older.
      orders ev s name address pincode reference_by = [r1, r2]
    \<and> sheet st1 = Some (older @ [dict_values r1, dict_values r2])
    \<and> older = (case sheet st of None \<Rightarrow> [] | Some tbl \<Rightarrow> tbl)
              @ (if sheet st = None \<or> sheet st = Some [] then [map S (dict_keys r1)] else [])
    \<and> map_of r1 ''Order ID'' = Some (S oid) \<and> map_of r2 ''Order ID'' = Some (S oid)
    \<and> map_of r1 ''Timestamp'' = Some (S (now ev)) \<and> map_of r2 ''Timestamp'' = Some (S (now ev))
    \<and> map_of r1 ''Quantity'' = Some (I (quantity d1))
    \<and> map_of r1 ''Unit Price'' = Some (I (price d1))
    \<and> map_of r1 ''Subtotal'' = Some (I (price d1 * quantity d1))
    \<and> map_of r2 ''Quantity'' = Some (I (quantity d2))
    \<and> map_of r2 ''Unit Price'' = Some (I (price d2))
    \<and> map_of r2 ''Subtotal'' = Some (I (price d2 * quantity d2))
    \<and> price d1 * quantity d1 + price d2 * quantity d2 = total_price (cart s)
    \<and> tot = total_price (cart s)"
proof -
  let ?row = "order_row (take 8 (uuid4 ev)) (now ev) (strip (user_phone s)) name address pincode
                reference_by"
  let ?rows = "orders ev s name address pincode reference_by"
  have o: "?rows = [?row d1, ?row d2]"
    using assms(1) by (simp add: orders_def)
  from assms(3) have ok: "save_orders_to_sheet st ?rows = (Inr (), st1)"
    and oid: "oid = take 8 (uuid4 ev)" and total: "tot = total_price (cart s)"
    by (auto simp: place_order_def split: if_splits prod.splits sum.splits)
  have sh: "sheet st1 =
      Some (((case sheet st of None \<Rightarrow> [] | Some tbl \<Rightarrow> tbl)
             @ (if sheet st = None \<or> sheet st = Some [] then [map S (dict_keys (?row d1))] else []))
            @ [dict_values (?row d1), dict_values (?row d2)])"
    using save_orders_sheet [OF ok] o by (cases "sheet st") (simp_all add: Let_def)
  have f: "map_of (?row d) ''Order ID'' = Some (S oid)"
    "map_of (?row d) ''Timestamp'' = Some (S (now ev))"
    "map_of (?row d) ''Quantity'' = Some (I (quantity d))"
    "map_of (?row d) ''Unit Price'' = Some (I (price d))"
    "map_of (?row d) ''Subtotal'' = Some (I (price d * quantity d))" for d
    by (simp_all add: order_row_def oid)
  have t: "price d1 * quantity d1 + price d2 * quantity d2 = total_price (cart s)"
    using assms(1) by simp
  show ?thesis
    using o sh f t total by blast
qed

theorem checkout_two_products_witness:
  "\<exists>r1 r2.
      orders \<lparr>uuid4 = ''1b9d6bcd-bbfd-4b2d-9b5d-ab8dfbbd4bed'', now = ''2025-08-01 10:00:00''\<rparr>
        \<lparr>user_phone = ''9876543210'',
         cart = [(''IMG_20250707_221915'',
                  \<lparr>title = ''Elegant Thread Rakhi'', price = 72, quantity = 2\<rparr>),
                 (''IMG_20250707_222103'',
                  \<lparr>title = ''Simple Grace Rakhi'', price = 64, quantity = 1\<rparr>)]\<rparr>
        ''Asha'' ''12 MG Road'' ''560001'' '''' = [r1, r2]
    \<and> map_of r1 ''Order ID'' = Some (S ''1b9d6bcd'') \<and> map_of r2 ''Order ID'' = Some (S ''1b9d6bcd'')
    \<and> map_of r1 ''Subtotal'' = Some (I 144) \<and> map_of r2 ''Subtotal'' = Some (I 64)
    \<and> (144::int) + 64 = 208"
proof -
  let ?ev = "\<lparr>uuid4 = ''1b9d6bcd-bbfd-4b2d-9b5d-ab8dfbbd4bed'', now = ''2025-08-01 10:00:00''\<rparr>"
  let ?d1 = "\<lparr>title = ''Elegant Thread Rakhi'', price = 72, quantity = 2\<rparr>"
  let ?d2 = "\<lparr>title = ''Simple Grace Rakhi'', price = 64, quantity = 1\<rparr>"
  let ?s = "\<lparr>user_phone = ''9876543210'',
            cart = [(''IMG_20250707_221915'', ?d1), (''IMG_20250707_222103'', ?d2)]\<rparr>"
  let ?st = "\<lparr>sheet = Some [], faults = []\<rparr>"
  have c: "cart ?s = [(''IMG_20250707_221915'', ?d1), (''IMG_20250707_222103'', ?d2)]"
    by simp
  have k: "''IMG_20250707_221915'' \<noteq> ''IMG_20250707_222103''"
    by simp
  have p: "place_order ?ev ?s ?st ''Asha'' ''12 MG Road'' ''560001'' '''' =
      (Inr (Placed ''1b9d6bcd'' 208), fst (snd (place_order ?ev ?s ?st ''Asha'' ''12 MG Road'' ''560001'' '''')),
       snd (snd (place_order ?ev ?s ?st ''Asha'' ''12 MG Road'' ''560001'' '''')))"
    by (simp add: place_order_def orders_def save_orders_no_faults)
  from checkout_two_products [OF c k p] show ?thesis
    by (auto simp del: One_nat_def)
qed

text \<open>
  C2. When the fields pass the check and \<^verbatim>\<open>save_orders_to_sheet\<close> raises, the
  exception leaves the handler (the user sees it instead of the success message), and
  the session, with its cart, is as it was; the store keeps the rows written before the
  failing call. The cart changes only when the write has succeeded: it is then emptied
  and the success message shown. A run of the Shop tab on Place Order that ends in any
  exception leaves the session as it was.
\<close>

theorem write_failure_keeps_cart:
  "(name \<noteq> [] \<and> address \<noteq> [] \<and> pincode \<noteq> [] \<and>
      save_orders_to_sheet st (orders ev s name address pincode reference_by) = (Inl err, st1)
      \<longrightarrow> place_order ev s st name address pincode reference_by = (Inl err, s, st1))
   \<and> (cart (fst (snd (place_order ev s st name address pincode reference_by))) \<noteq> cart s
      \<longrightarrow> (\<exists>st2. save_orders_to_sheet st (orders ev s name address pincode reference_by)
                    = (Inr (), st2)
                \<and> place_order ev s st name address pincode reference_by
                    = (Inr (Placed (take 8 (uuid4 ev)) (total_price (cart s))), s\<lparr>cart := []\<rparr>, st2)))
   \<and> (fst (shop_tab ev (PlaceOrder name address pincode reference_by) s st) = Inl err
      \<longrightarrow> fst (snd (shop_tab ev (PlaceOrder name address pincode reference_by) s st)) = s)"
proof (intro conjI impI)
  assume "name \<noteq> [] \<and> address \<noteq> [] \<and> pincode \<noteq> [] \<and>
      save_orders_to_sheet st (orders ev s name address pincode reference_by) = (Inl err, st1)"
  then show "place_order ev s st name address pincode reference_by = (Inl err, s, st1)"
    by (simp add: place_order_def)
next
  assume "cart (fst (snd (place_order ev s st name address pincode reference_by))) \<noteq> cart s"
  then show "\<exists>st2. save_orders_to_sheet st (orders ev s name address pincode reference_by)
                    = (Inr (), st2)
                \<and> place_order ev s st name address pincode reference_by
                    = (Inr (Placed (take 8 (uuid4 ev)) (total_price (cart s))), s\<lparr>cart := []\<rparr>, st2)"
    by (auto simp: place_order_def split: if_splits prod.splits sum.splits)
next
  let ?e = "PlaceOrder name address pincode reference_by"
  assume a: "fst (shop_tab ev ?e s st) = Inl err"
  have c: "snd (shop_loop rakhi_catalog ?e (cart s)) = cart s"
    by (rule shop_loop_no_add) simp
  obtain r where r: "shop_loop rakhi_catalog ?e (cart s) = (r, cart s)"
    using c by (cases "shop_loop rakhi_catalog ?e (cart s)") auto
  show "fst (snd (shop_tab ev ?e s st)) = s"
    using a r
    by (auto simp: shop_tab_def place_order_def split: sum.splits if_splits prod.splits)
qed

theorem write_failure_keeps_cart_witness:
  "place_order \<lparr>uuid4 = ''1b9d6bcd-bbfd-4b2d-9b5d-ab8dfbbd4bed'', now = ''2025-08-01 10:00:00''\<rparr>
        \<lparr>user_phone = ''9876543210'',
         cart = [(''IMG_20250707_221915'',
                  \<lparr>title = ''Elegant Thread Rakhi'', price = 72, quantity = 2\<rparr>),
                 (''IMG_20250707_222103'',
                  \<lparr>title = ''Simple Grace Rakhi'', price = 64, quantity = 1\<rparr>)]\<rparr>
        \<lparr>sheet = Some [[S ''Order ID'']], faults = [False, False, False, False, False, True]\<rparr>
        ''Asha'' ''12 MG Road'' ''560001'' ''''
   = (Inl APIError,
      \<lparr>user_phone = ''9876543210'',
         cart = [(''IMG_20250707_221915'',
                  \<lparr>title = ''Elegant Thread Rakhi'', price = 72, quantity = 2\<rparr>),
                 (''IMG_20250707_222103'',
                  \<lparr>title = ''Simple Grace Rakhi'', price = 64, quantity = 1\<rparr>)]\<rparr>,
      \<lparr>sheet = Some [[S ''Order ID''],
          [S ''1b9d6bcd'', S ''Elegant Thread Rakhi'', I 2, I 72, I 144, S ''Asha'',
           S ''9876543210'', S ''12 MG Road'', S ''560001'', S '''', S ''2025-08-01 10:00:00'']],
        faults = []\<rparr>)"
proof -
  let ?ev = "\<lparr>uuid4 = ''1b9d6bcd-bbfd-4b2d-9b5d-ab8dfbbd4bed'', now = ''2025-08-01 10:00:00''\<rparr>"
  let ?s = "\<lparr>user_phone = ''9876543210'',
         cart = [(''IMG_20250707_221915'',
                  \<lparr>title = ''Elegant Thread Rakhi'', price = 72, quantity = 2\<rparr>),
                 (''IMG_20250707_222103'',
                  \<lparr>title = ''Simple Grace Rakhi'', price = 64, quantity = 1\<rparr>)]\<rparr>"
  let ?st = "\<lparr>sheet = Some [[S ''Order ID'']], faults = [False, False, False, False, False, True]\<rparr>"
  let ?st1 = "\<lparr>sheet = Some [[S ''Order ID''],
          [S ''1b9d6bcd'', S ''Elegant Thread Rakhi'', I 2, I 72, I 144, S ''Asha'',
           S ''9876543210'', S ''12 MG Road'', S ''560001'', S '''', S ''2025-08-01 10:00:00'']],
        faults = []\<rparr>"
  have "save_orders_to_sheet ?st (orders ?ev ?s ''Asha'' ''12 MG Road'' ''560001'' '''')
      = (Inl APIError, ?st1)"
    by (simp add: save_orders_to_sheet_def get_gspread_client_def get_worksheet_def
        get_all_values_def append_row_def request_def fill_gaps_def orders_def order_row_def
        dict_values_def strip_def is_space_def)
  with write_failure_keeps_cart [of "''Asha''" "''12 MG Road''" "''560001''" ?st ?ev ?s "''''"
      APIError ?st1]
  show ?thesis by simp
qed

section \<open>Facts about the catalog and the cart\<close>

lemma catalog_prices:
  "list_all (\<lambda>(key, item).
       final_price (p_price item) (discount item)
         = Inr ((p_price item * (100 - discount item)) div 100)
     \<and> (p_price item * (100 - discount item)) div 100 \<le> p_price item)
     catalog_literal"
  by code_simp

lemma catalog_keys: "distinct (map fst catalog_literal)"
  by code_simp

lemma set_rakhi_catalog: "set rakhi_catalog = set catalog_literal"
  by (simp add: rakhi_catalog_def)

lemma distinct_rakhi_catalog: "distinct (map fst rakhi_catalog)"
  using catalog_keys by (simp add: rakhi_catalog_def distinct_map)

lemma rakhi_catalog_price:
  assumes "(key, item) \<in> set rakhi_catalog"
  shows "final_price (p_price item) (discount item)
           = Inr ((p_price item * (100 - discount item)) div 100)"
    and "(p_price item * (100 - discount item)) div 100 \<le> p_price item"
  using assms catalog_prices by (auto simp: set_rakhi_catalog list_all_iff)

lemma exact_price_floor:
  "\<lfloor>(of_int p :: rat) * (1 - of_int d / 100)\<rfloor> = (p * (100 - d)) div 100"
proof -
  have "(of_int p :: rat) * (1 - of_int d / 100) = of_int (p * (100 - d)) / of_int 100"
    by (simp add: field_simps)
  then show ?thesis
    by (simp only: floor_divide_of_int_eq)
qed

lemma map_of_dict_set:
  "map_of (dict_set d k v) k' = (if k' = k then Some v else map_of d k')"
  by (induction d) auto

lemma keys_dict_set_present:
  "map_of d k \<noteq> None \<Longrightarrow> map fst (dict_set d k v) = map fst d"
  by (induction d) auto

lemma dict_set_absent: "map_of d k = None \<Longrightarrow> dict_set d k v = d @ [(k, v)]"
  by (induction d) (auto split: if_splits)

lemma add_to_cart_not_Nil: "add_to_cart c key t p q \<noteq> []"
  by (cases c) (auto simp: add_to_cart_def split: option.splits)

lemma shop_loop_other_keys:
  assumes "key \<notin> fst ` set cat"
    and "\<forall>(k, i)\<in>set cat. \<exists>fp. final_price (p_price i) (discount i) = Inr fp"
  shows "shop_loop cat (AddToCart key q) c = (Inr (), c)"
  using assms by (induction cat) (auto split: sum.splits)

lemma shop_loop_add:
  assumes "distinct (map fst cat)"
    and "\<forall>(k, i)\<in>set cat. \<exists>fp. final_price (p_price i) (discount i) = Inr fp"
    and "(key, item) \<in> set cat"
    and "final_price (p_price item) (discount item) = Inr fp"
  shows "shop_loop cat (AddToCart key q) c = (Inr (), add_to_cart c key (p_title item) fp q)"
  using assms
proof (induction cat arbitrary: c)
  case Nil
  then show ?case by simp
next
  case (Cons x cat)
  obtain k i where x: "x = (k, i)" by (cases x)
  from Cons.prems(2) x obtain f where f: "final_price (p_price i) (discount i) = Inr f"
    by auto
  show ?case
  proof (cases "k = key")
    case True
    with Cons.prems(1,3) x have i: "i = item" and n: "key \<notin> fst ` set cat"
      by (auto simp: image_iff)
    from Cons.prems(2) have "\<forall>(k, i)\<in>set cat. \<exists>fp. final_price (p_price i) (discount i) = Inr fp"
      by simp
    from shop_loop_other_keys [OF n this] x True i f Cons.prems(4) show ?thesis
      by simp
  next
    case False
    with Cons.prems x have "(key, item) \<in> set cat" "distinct (map fst cat)"
      "\<forall>(k, i)\<in>set cat. \<exists>fp. final_price (p_price i) (discount i) = Inr fp"
      by auto
    from Cons.IH [OF this(2) this(3) this(1) Cons.prems(4)] x False f show ?thesis
      by simp
  qed
qed

lemma shop_tab_add:
  assumes "(key, item) \<in> set rakhi_catalog"
  shows "fst (snd (shop_tab ev (AddToCart key q) s st)) =
     s\<lparr>cart := add_to_cart (cart s) key (p_title item)
                 ((p_price item * (100 - discount item)) div 100) q\<rparr>"
proof -
  have "\<forall>(k, i)\<in>set rakhi_catalog. \<exists>fp. final_price (p_price i) (discount i) = Inr fp"
    using rakhi_catalog_price(1) by blast
  from shop_loop_add [OF distinct_rakhi_catalog this assms rakhi_catalog_price(1) [OF assms]]
  show ?thesis
    by (simp add: shop_tab_def add_to_cart_not_Nil)
qed

section \<open>Properties of the catalog and the cart\<close>

text \<open>
  C8. For every product of the catalog, the price computed on line 244 in floating
  point is the floor of \<open>price * (1 - discount / 100)\<close> computed in the rationals, and
  it is at most the base price.
\<close>

theorem catalog_final_price:
  "\<forall>(key, item)\<in>set rakhi_catalog.
     final_price (p_price item) (discount item)
       = Inr \<lfloor>(of_int (p_price item) :: rat) * (1 - of_int (discount item) / 100)\<rfloor>
     \<and> \<lfloor>(of_int (p_price item) :: rat) * (1 - of_int (discount item) / 100)\<rfloor> \<le> p_price item"
  using rakhi_catalog_price by (auto simp: exact_price_floor)

theorem catalog_final_price_witness:
  "final_price 150 45 = Inr \<lfloor>(of_int 150 :: rat) * (1 - of_int 45 / 100)\<rfloor>
   \<and> \<lfloor>(of_int 150 :: rat) * (1 - of_int 45 / 100)\<rfloor> = 82"
proof -
  let ?item = "\<lparr>p_title = ''Golden Stone Rakhi'', p_price = 150, discount = 45,
    image = ''https://res.cloudinary.com/dx35lfv49/image/upload/v1753777815/WhatsApp%20Image%202025-07-29%20at%2011.43.38_6a4f12e0.jpg''\<rparr>"
  have "(''IMG_20250729_114338_1'', ?item) \<in> set rakhi_catalog"
    by (simp add: set_rakhi_catalog catalog_literal_def)
  with catalog_final_price have
    "final_price (p_price ?item) (discount ?item)
       = Inr \<lfloor>(of_int (p_price ?item) :: rat) * (1 - of_int (discount ?item) / 100)\<rfloor>"
    by blast
  moreover have "\<lfloor>(of_int 150 :: rat) * (1 - of_int 45 / 100)\<rfloor> = (150 * (100 - 45)) div 100"
    by (rule exact_price_floor)
  ultimately show ?thesis by (simp del: of_int_numeral)
qed

text \<open>
  C6. Let \<open>key\<close> be a product of the catalog and \<open>fp\<close> its effective price, the
  \<^verbatim>\<open>final_price\<close> that line 244 computes for it. A run of the Shop tab in which its
  Add to Cart button is pressed changes a cart that already holds the product only in
  the quantity of that line, which grows by the quantity chosen: the keys of the cart
  and their order stay, so no line is added, and every other line stays. Two such runs
  from the empty cart, with positive quantities \<open>q1\<close> then \<open>q2\<close>, leave exactly one
  line, with quantity \<open>q1 + q2\<close>, the title of the product and the price \<open>fp\<close>; the
  same cart results from \<open>q2\<close> then \<open>q1\<close>.
\<close>

theorem add_to_cart_same_product:
  assumes "(key, item) \<in> set rakhi_catalog" and "0 < q1" and "0 < q2"
  shows "\<exists>fp. final_price (p_price item) (discount item) = Inr fp
    \<and> cart (fst (snd (shop_tab ev2 (AddToCart key q2)
               (fst (snd (shop_tab ev1 (AddToCart key q1) (s\<lparr>cart := []\<rparr>) st1))) st2)))
        = [(key, \<lparr>title = p_title item, price = fp, quantity = q1 + q2\<rparr>)]
    \<and> cart (fst (snd (shop_tab ev2 (AddToCart key q1)
               (fst (snd (shop_tab ev1 (AddToCart key q2) (s\<lparr>cart := []\<rparr>) st1))) st2)))
        = [(key, \<lparr>title = p_title item, price = fp, quantity = q1 + q2\<rparr>)]
    \<and> (\<forall>d. map_of (cart s) key = Some d \<longrightarrow>
          map fst (cart (fst (snd (shop_tab ev1 (AddToCart key q1) s st1)))) = map fst (cart s)
        \<and> (\<forall>k. map_of (cart (fst (snd (shop_tab ev1 (AddToCart key q1) s st1)))) k
                 = (if k = key then Some (d\<lparr>quantity := quantity d + q1\<rparr>)
                    else map_of (cart s) k)))"
proof (intro exI [of _ "(p_price item * (100 - discount item)) div 100"] conjI allI impI)
  show "final_price (p_price item) (discount item)
          = Inr ((p_price item * (100 - discount item)) div 100)"
    using assms(1) by (rule rakhi_catalog_price)
next
  show "cart (fst (snd (shop_tab ev2 (AddToCart key q2)
               (fst (snd (shop_tab ev1 (AddToCart key q1) (s\<lparr>cart := []\<rparr>) st1))) st2)))
        = [(key, \<lparr>title = p_title item, price = (p_price item * (100 - discount item)) div 100,
                  quantity = q1 + q2\<rparr>)]"
    by (simp add: shop_tab_add [OF assms(1)] add_to_cart_def)
next
  show "cart (fst (snd (shop_tab ev2 (AddToCart key q1)
               (fst (snd (shop_tab ev1 (AddToCart key q2) (s\<lparr>cart := []\<rparr>) st1))) st2)))
        = [(key, \<lparr>title = p_title item, price = (p_price item * (100 - discount item)) div 100,
                  quantity = q1 + q2\<rparr>)]"
    by (simp add: shop_tab_add [OF assms(1)] add_to_cart_def add.commute)
next
  fix d
  assume "map_of (cart s) key = Some d"
  then show "map fst (cart (fst (snd (shop_tab ev1 (AddToCart key q1) s st1)))) = map fst (cart s)"
    by (simp add: shop_tab_add [OF assms(1)] add_to_cart_def keys_dict_set_present)
next
  fix d k
  assume "map_of (cart s) key = Some d"
  then show "map_of (cart (fst (snd (shop_tab ev1 (AddToCart key q1) s st1)))) k
                 = (if k = key then Some (d\<lparr>quantity := quantity d + q1\<rparr>)
                    else map_of (cart s) k)"
    by (simp add: shop_tab_add [OF assms(1)] add_to_cart_def map_of_dict_set)
qed

theorem add_to_cart_same_product_witness:
  "cart (fst (snd (shop_tab \<lparr>uuid4 = [], now = []\<rparr> (AddToCart ''IMG_20250707_221915'' 3)
          (fst (snd (shop_tab \<lparr>uuid4 = [], now = []\<rparr> (AddToCart ''IMG_20250707_221915'' 2)
             \<lparr>user_phone = ''9876543210'', cart = []\<rparr> \<lparr>sheet = None, faults = []\<rparr>)))
          \<lparr>sheet = None, faults = []\<rparr>)))
     = [(''IMG_20250707_221915'', \<lparr>title = ''Elegant Thread Rakhi'', price = 72, quantity = 5\<rparr>)]"
proof -
  let ?item = "\<lparr>p_title = ''Elegant Thread Rakhi'', p_price = 120, discount = 40,
    image = ''https://res.cloudinary.com/dx35lfv49/image/upload/v1753726754/IMG_20250707_221915.jpg''\<rparr>"
  let ?s = "\<lparr>user_phone = ''9876543210'', cart = []\<rparr>"
  have m: "(''IMG_20250707_221915'', ?item) \<in> set rakhi_catalog"
    by (simp add: set_rakhi_catalog catalog_literal_def)
  have p: "final_price (p_price ?item) (discount ?item) = Inr 72"
    using rakhi_catalog_price(1) [OF m] by simp
  from add_to_cart_same_product [OF m, of 2 3 "\<lparr>uuid4 = [], now = []\<rparr>" "\<lparr>uuid4 = [], now = []\<rparr>" ?s
      "\<lparr>sheet = None, faults = []\<rparr>" "\<lparr>sheet = None, faults = []\<rparr>"] p
  show ?thesis
    by auto
qed

section \<open>Facts about reading the ledger\<close>

lemma get_all_records_no_faults:
  "faults st = [] \<Longrightarrow> sheet st = Some tbl \<Longrightarrow>
     get_all_records st = (Inr (records (fill_gaps (map (map str) tbl))), st)"
  by (simp add: get_all_records_def get_all_values_def request_no_faults)

lemma get_user_orders_no_faults:
  "faults st = [] \<Longrightarrow>
     get_user_orders st p =
       (select_orders
          (records (fill_gaps (map (map str) (case sheet st of None \<Rightarrow> [] | Some tbl \<Rightarrow> tbl)))) p,
        st\<lparr>sheet := Some (case sheet st of None \<Rightarrow> [] | Some tbl \<Rightarrow> tbl)\<rparr>)"
  by (simp add: get_user_orders_def get_gspread_client_def request_no_faults
      get_worksheet_no_faults get_all_records_no_faults)




lemma set_map_filter: "set (List.map_filter f xs) = {y. \<exists>x\<in>set xs. f x = Some y}"
  by (induction xs) (auto simp: List.map_filter_simps split: option.splits)

lemma show_groups_oids: "show_groups gs = Inr vs \<Longrightarrow> map view_oid vs = map fst gs"
proof (induction gs arbitrary: vs)
  case Nil
  then show ?case by simp
next
  case (Cons g gs)
  from Cons.prems obtain v vs' where v: "show_group g = Inr v"
    and r: "show_groups gs = Inr vs'" and e: "vs = v # vs'"
    by (auto simp: bind_error_def split: sum.splits)
  from v have "view_oid v = fst g"
    by (auto simp: show_group_def bind_error_def split: list.splits sum.splits prod.splits)
  with Cons.IH [OF r] e show ?case by simp
qed

lemma map_of_foldl_dict_set:
  "map_of (foldl (\<lambda>d (k, v). dict_set d k v) d kvs) k \<noteq> None
     \<longleftrightarrow> map_of d k \<noteq> None \<or> k \<in> fst ` set kvs"
  by (induction kvs arbitrary: d) (auto simp: map_of_dict_set image_iff)

lemma map_of_dict_of: "map_of (dict_of kvs) k \<noteq> None \<longleftrightarrow> k \<in> fst ` set kvs"
  using map_of_foldl_dict_set [of "[]" kvs k] by (simp add: dict_of_def)

lemma length_le_width: "r \<in> set tbl \<Longrightarrow> length r \<le> foldr max (map length tbl) 0"
  by (induction tbl) auto

lemma fill_gaps_length:
  "r \<in> set (fill_gaps tbl) \<Longrightarrow> length r = foldr max (map length tbl) 0"
  by (auto simp: fill_gaps_def Let_def dest: length_le_width)

text \<open>
  Every record read from a worksheet whose first row, the header, has a Phone column
  has a Phone field.
\<close>

lemma records_have_phone:
  assumes "S ''Phone'' \<in> set hdr"
  shows "\<forall>r\<in>set (records (fill_gaps (map (map str) (hdr # tbl)))). map_of r ''Phone'' \<noteq> None"
proof
  fix r
  let ?vals = "fill_gaps (map (map str) (hdr # tbl))"
  assume r: "r \<in> set (records ?vals)"
  obtain h rest where v: "?vals = h # rest"
    by (cases ?vals) (auto simp: fill_gaps_def Let_def)
  from v have h: "set (map str hdr) \<subseteq> set h"
    by (auto simp: fill_gaps_def Let_def)
  from r v obtain row where row: "row \<in> set rest"
    and rr: "r = dict_of (zip h (map numericise row))"
    by (auto simp: records_def)
  have "length h = length row"
    using fill_gaps_length [of h "map (map str) (hdr # tbl)"]
      fill_gaps_length [of row "map (map str) (hdr # tbl)"] v row
    by simp
  then have "fst ` set (zip h (map numericise row)) = set h"
    by (metis length_map map_fst_zip set_map)
  moreover from assms have "''Phone'' \<in> set (map str hdr)"
    by force
  ultimately have "''Phone'' \<in> fst ` set (zip h (map numericise row))"
    using h by blast
  then show "map_of r ''Phone'' \<noteq> None"
    unfolding rr by (rule map_of_dict_of [THEN iffD2])
qed

section \<open>Properties of the order query\<close>



section \<open>Properties of the My Orders tab\<close>

text \<open>
  C5, as the code has it. The groups of \<^verbatim>\<open>df.groupby("Order ID")\<close> are shown in the
  order of the loop, which is the ascending order of the order ids (\<open>cell_key\<close>), each
  id once. A group holds the rows of the frame with its order id, in the order of the
  frame, and is not empty; every row with an order id is in exactly one group.
\<close>

theorem groupby_sorted_groups:
  assumes "groupby ''Order ID'' df = Inr gs" and "show_groups gs = Inr vs"
  shows "sorted (map (cell_key \<circ> fst) gs) \<and> distinct (map fst gs)
       \<and> map view_oid vs = map fst gs
       \<and> (\<forall>kg\<in>set gs. snd kg = filter (\<lambda>(i, r). map_of r ''Order ID'' = Some (fst kg)) (rows df)
                       \<and> snd kg \<noteq> [])
       \<and> (\<forall>x\<in>set (rows df). \<forall>k. map_of (snd x) ''Order ID'' = Some k \<longrightarrow>
             (\<exists>!kg. kg \<in> set gs \<and> x \<in> set (snd kg)))"
proof -
  let ?f = "\<lambda>(i, r). map_of r ''Order ID''"
  let ?ks = "sort_key cell_key (remdups (List.map_filter ?f (rows df)))"
  let ?g = "\<lambda>k. (k, filter (\<lambda>(i, r). map_of r ''Order ID'' = Some k) (rows df))"
  from assms(1) have gs: "gs = map ?g ?ks"
    by (simp add: groupby_def split: if_splits)
  have fst_gs: "map fst gs = ?ks"
    by (simp add: gs comp_def)
  have ks: "set ?ks = {k. \<exists>x\<in>set (rows df). ?f x = Some k}"
    by (simp add: set_map_filter)
  have 1: "sorted (map (cell_key \<circ> fst) gs)"
    using sorted_sort_key [of cell_key "remdups (List.map_filter ?f (rows df))"]
    by (simp add: gs comp_def)
  have 2: "distinct (map fst gs)"
    by (simp add: fst_gs)
  have 3: "map view_oid vs = map fst gs"
    using assms(2) by (rule show_groups_oids)
  have 4: "snd kg = filter (\<lambda>(i, r). map_of r ''Order ID'' = Some (fst kg)) (rows df)
      \<and> snd kg \<noteq> []" if "kg \<in> set gs" for kg
  proof -
    from that obtain k where k: "k \<in> set ?ks" and kg: "kg = ?g k"
      by (auto simp: gs)
    from k ks obtain x where "x \<in> set (rows df)" "?f x = Some k"
      by blast
    then have "filter (\<lambda>(i, r). map_of r ''Order ID'' = Some k) (rows df) \<noteq> []"
      by (auto simp: filter_empty_conv case_prod_beta)
    with kg show ?thesis by simp
  qed
  have 5: "\<exists>!kg. kg \<in> set gs \<and> x \<in> set (snd kg)"
    if x: "x \<in> set (rows df)" and k: "map_of (snd x) ''Order ID'' = Some k" for x k
  proof (rule ex1I [of _ "?g k"])
    from x k have "k \<in> set ?ks"
      unfolding ks by (auto simp: case_prod_beta)
    then have "?g k \<in> set gs"
      by (simp add: gs)
    moreover from x k have "x \<in> set (snd (?g k))"
      by (auto simp: case_prod_beta)
    ultimately show "?g k \<in> set gs \<and> x \<in> set (snd (?g k))" ..
  next
    fix kg
    assume a: "kg \<in> set gs \<and> x \<in> set (snd kg)"
    then obtain k' where kg: "kg = ?g k'"
      by (auto simp: gs)
    with a k have "k' = k"
      by (auto simp: case_prod_beta)
    with kg show "kg = ?g k" by simp
  qed
  from 1 2 3 4 5 show ?thesis by blast
qed

theorem groupby_sorted_groups_witness:
  "map_sum id (map fst) (groupby ''Order ID''
     \<lparr>columns = [''Order ID'', ''Product'', ''Quantity'', ''Unit Price'', ''Subtotal'', ''Name'',
                 ''Address'', ''Pincode'', ''Timestamp''],
      rows = [(0, [(''Order ID'', S ''ffff0000''), (''Product'', S ''Royal Red Rakhi''),
                   (''Quantity'', I 1), (''Unit Price'', I 64), (''Subtotal'', I 64),
                   (''Name'', S ''Asha''), (''Address'', S ''12 MG Road''),
                   (''Pincode'', I 560001), (''Timestamp'', S ''2025-08-01 10:00:00'')]),
              (1, [(''Order ID'', S ''aaaa1111''), (''Product'', S ''Royal Red Rakhi''),
                   (''Quantity'', I 1), (''Unit Price'', I 64), (''Subtotal'', I 64),
                   (''Name'', S ''Asha''), (''Address'', S ''12 MG Road''),
                   (''Pincode'', I 560001), (''Timestamp'', S ''2025-08-01 10:00:00'')]),
              (2, [(''Order ID'', S ''ffff0000''), (''Product'', S ''Royal Red Rakhi''),
                   (''Quantity'', I 1), (''Unit Price'', I 64), (''Subtotal'', I 64),
                   (''Name'', S ''Asha''), (''Address'', S ''12 MG Road''),
                   (''Pincode'', I 560001), (''Timestamp'', S ''2025-08-01 10:00:00'')])]\<rparr>)
   = Inr [S ''aaaa1111'', S ''ffff0000'']
   \<and> sorted (map cell_key [S ''aaaa1111'', S ''ffff0000''])"
proof -
  let ?r = "\<lambda>oid. [(''Order ID'', S oid), (''Product'', S ''Royal Red Rakhi''),
                   (''Quantity'', I 1), (''Unit Price'', I 64), (''Subtotal'', I 64),
                   (''Name'', S ''Asha''), (''Address'', S ''12 MG Road''),
                   (''Pincode'', I 560001), (''Timestamp'', S ''2025-08-01 10:00:00'')]"
  let ?df = "\<lparr>columns = [''Order ID'', ''Product'', ''Quantity'', ''Unit Price'', ''Subtotal'',
                 ''Name'', ''Address'', ''Pincode'', ''Timestamp''],
      rows = [(0, ?r ''ffff0000''), (1, ?r ''aaaa1111''), (2, ?r ''ffff0000'')]\<rparr>"
  let ?gs = "[(S ''aaaa1111'', [(1::nat, ?r ''aaaa1111'')]),
              (S ''ffff0000'', [(0, ?r ''ffff0000''), (2, ?r ''ffff0000'')])]"
  have g: "groupby ''Order ID'' ?df = Inr ?gs"
    by (simp add: groupby_def List.map_filter_simps)
  have "\<exists>vs. show_groups ?gs = Inr vs"
    by (simp add: show_group_def bind_error_def getitem_def)
  then obtain vs where v: "show_groups ?gs = Inr vs" ..
  from groupby_sorted_groups [OF g v] have "sorted (map (cell_key \<circ> fst) ?gs)"
    by blast
  with g show ?thesis
    by (simp del: sorted_wrt.simps cell_key.simps)
qed

text \<open>
  C5 as stated fails: in this frame the order id \<open>ffff0000\<close> appears first and
  \<open>aaaa1111\<close> second, and the group of \<open>aaaa1111\<close> is shown first.
\<close>

theorem groups_not_in_order_of_appearance:
  "map (\<lambda>(i, r). map_of r ''Order ID'')
     [(0::nat, [(''Order ID'', S ''ffff0000''), (''Product'', S ''Royal Red Rakhi'')]),
      (1, [(''Order ID'', S ''aaaa1111''), (''Product'', S ''Simple Grace Rakhi'')])]
     = [Some (S ''ffff0000''), Some (S ''aaaa1111'')]
   \<and> map_sum id (map fst) (groupby ''Order ID''
     \<lparr>columns = [''Order ID'', ''Product''],
      rows = [(0, [(''Order ID'', S ''ffff0000''), (''Product'', S ''Royal Red Rakhi'')]),
              (1, [(''Order ID'', S ''aaaa1111''), (''Product'', S ''Simple Grace Rakhi'')])]\<rparr>)
     = Inr [S ''aaaa1111'', S ''ffff0000'']"
  by (simp add: groupby_def List.map_filter_simps)

section \<open>Reading back the orders of a checkout\<close>

text \<open>
  C7 at a phone number written with its country code. The customer logs in as
  \<open>+919876543210\<close> and checks out one product on an empty ledger: the header and the
  order line are written, the line with the phone as entered. On the My Orders tab of
  the same session \<^verbatim>\<open>get_all_records\<close> returns the Phone of that line as the
  integer \<open>919876543210\<close>, line 94 turns it into the string \<open>919876543210\<close>, which is
  not the phone of the session, and the page says that there are no orders.
\<close>

theorem plus_phone_orders_not_found:
  "login ''+919876543210'' = Some \<lparr>user_phone = ''+919876543210'', cart = []\<rparr>
   \<and> place_order
        \<lparr>uuid4 = ''1b9d6bcd-bbfd-4b2d-9b5d-ab8dfbbd4bed'', now = ''2025-08-01 10:00:00''\<rparr>
        \<lparr>user_phone = ''+919876543210'',
         cart = [(''IMG_20250707_221915'',
                  \<lparr>title = ''Elegant Thread Rakhi'', price = 72, quantity = 2\<rparr>)]\<rparr>
        \<lparr>sheet = Some [], faults = []\<rparr> ''Asha'' ''12 MG Road'' ''560001'' ''''
      = (Inr (Placed ''1b9d6bcd'' 144),
         \<lparr>user_phone = ''+919876543210'', cart = []\<rparr>,
         \<lparr>sheet = Some
            [[S ''Order ID'', S ''Product'', S ''Quantity'', S ''Unit Price'', S ''Subtotal'',
              S ''Name'', S ''Phone'', S ''Address'', S ''Pincode'', S ''Reference By'',
              S ''Timestamp''],
             [S ''1b9d6bcd'', S ''Elegant Thread Rakhi'', I 2, I 72, I 144, S ''Asha'',
              S ''+919876543210'', S ''12 MG Road'', S ''560001'', S '''',
              S ''2025-08-01 10:00:00'']],
          faults = []\<rparr>)
   \<and> fst (my_orders_tab \<lparr>user_phone = ''+919876543210'', cart = []\<rparr>
        \<lparr>sheet = Some
            [[S ''Order ID'', S ''Product'', S ''Quantity'', S ''Unit Price'', S ''Subtotal'',
              S ''Name'', S ''Phone'', S ''Address'', S ''Pincode'', S ''Reference By'',
              S ''Timestamp''],
             [S ''1b9d6bcd'', S ''Elegant Thread Rakhi'', I 2, I 72, I 144, S ''Asha'',
              S ''+919876543210'', S ''12 MG Road'', S ''560001'', S '''',
              S ''2025-08-01 10:00:00'']],
          faults = []\<rparr>) = Inr NoOrders"
proof (intro conjI)
  show "login ''+919876543210'' = Some \<lparr>user_phone = ''+919876543210'', cart = []\<rparr>"
    by (simp add: login_def strip_def is_space_def)
next
  show "place_order
        \<lparr>uuid4 = ''1b9d6bcd-bbfd-4b2d-9b5d-ab8dfbbd4bed'', now = ''2025-08-01 10:00:00''\<rparr>
        \<lparr>user_phone = ''+919876543210'',
         cart = [(''IMG_20250707_221915'',
                  \<lparr>title = ''Elegant Thread Rakhi'', price = 72, quantity = 2\<rparr>)]\<rparr>
        \<lparr>sheet = Some [], faults = []\<rparr> ''Asha'' ''12 MG Road'' ''560001'' ''''
      = (Inr (Placed ''1b9d6bcd'' 144),
         \<lparr>user_phone = ''+919876543210'', cart = []\<rparr>,
         \<lparr>sheet = Some
            [[S ''Order ID'', S ''Product'', S ''Quantity'', S ''Unit Price'', S ''Subtotal'',
              S ''Name'', S ''Phone'', S ''Address'', S ''Pincode'', S ''Reference By'',
              S ''Timestamp''],
             [S ''1b9d6bcd'', S ''Elegant Thread Rakhi'', I 2, I 72, I 144, S ''Asha'',
              S ''+919876543210'', S ''12 MG Road'', S ''560001'', S '''',
              S ''2025-08-01 10:00:00'']],
          faults = []\<rparr>)"
    by (simp add: place_order_def orders_def order_row_def dict_keys_def dict_values_def
        save_orders_no_faults strip_def is_space_def)
next
  have n: "numericise ''+919876543210'' = I 919876543210"
    by (simp add: numericise_def int_of_str_def strip_def is_space_def is_digit_def
        digits_value_def)
  have s: "strip (str_int 919876543210) = ''919876543210''"
    "strip ''+919876543210'' = ''+919876543210''"
    by (simp_all add: str_int_def str_nat.simps strip_def is_space_def)
  show "fst (my_orders_tab \<lparr>user_phone = ''+919876543210'', cart = []\<rparr>
        \<lparr>sheet = Some
            [[S ''Order ID'', S ''Product'', S ''Quantity'', S ''Unit Price'', S ''Subtotal'',
              S ''Name'', S ''Phone'', S ''Address'', S ''Pincode'', S ''Reference By'',
              S ''Timestamp''],
             [S ''1b9d6bcd'', S ''Elegant Thread Rakhi'', I 2, I 72, I 144, S ''Asha'',
              S ''+919876543210'', S ''12 MG Road'', S ''560001'', S '''',
              S ''2025-08-01 10:00:00'']],
          faults = []\<rparr>) = Inr NoOrders"
    by (simp add: my_orders_tab_def get_user_orders_no_faults select_orders_def records_def
        fill_gaps_def normalise_phone_def n s dict_keys_def dict_of_def)
qed

end
